theory Spec2Isabelle
  imports Complex_Main
begin

section \<open>Persisted state\<close>

text \<open>
  The services work on a SQLAlchemy session. The model keeps the three tables the credit
  and job code touches: users keyed by their id, the credit transactions in insertion
  order, and the processing jobs keyed by their id. Python's integers are unbounded, so
  the amounts are \<open>int\<close>. \<open>datetime.utcnow()\<close> and \<open>uuid.uuid4()\<close> are read from the
  environment; every operation takes the clock reading and the fresh id as arguments.
  The \<open>except Exception\<close> branches of the services (log, rollback, return) are reached
  only when the database driver itself raises, which a store held in memory never does.
\<close>

type_synonym timestamp = nat
type_synonym uuid = string

record user =
  credits_balance :: int
  total_credits_used :: int
  total_credits_purchased :: int
  user_updated_at :: "timestamp option"

record credit_transaction =
  tx_id :: uuid
  tx_user_id :: string
  amount :: int
  transaction_type :: string
  description :: string
  payment_id :: "string option"
  payment_method :: "string option"
  payment_status :: "string option"
  balance_before :: int
  balance_after :: int

record processing_job =
  job_user_id :: string
  status :: string
  progress :: int
  credits_used :: int
  estimated_cost :: int
  callback_url :: "string option"
  error_message :: "string option"
  output_images :: "string list option"
  processing_time_seconds :: "rat option"
  started_at :: "timestamp option"
  completed_at :: "timestamp option"
  job_updated_at :: "timestamp option"

record session =
  users :: "string \<rightharpoonup> user"
  transactions :: "credit_transaction list"
  jobs :: "string \<rightharpoonup> processing_job"

section \<open>Credit service\<close>

text \<open>\<open>CreditService.check_and_reserve_credits\<close>: the returned flag and the session after it.\<close>

definition check_and_reserve_credits ::
  "session \<Rightarrow> timestamp \<Rightarrow> uuid \<Rightarrow> string \<Rightarrow> int \<Rightarrow> bool \<times> session" where
  "check_and_reserve_credits db now new_id user_id required_credits =
     (case users db user_id of
        None \<Rightarrow> (False, db)
      | Some u \<Rightarrow>
          if credits_balance u < required_credits then (False, db)
          else
            let before = credits_balance u;
                u' = u\<lparr>credits_balance := credits_balance u - required_credits,
                       total_credits_used := total_credits_used u + required_credits,
                       user_updated_at := Some now\<rparr>;
                t = \<lparr>tx_id = new_id, tx_user_id = user_id, amount = - required_credits,
                     transaction_type = ''usage'',
                     description = ''Credits reserved for image processing'',
                     payment_id = None, payment_method = None, payment_status = None,
                     balance_before = before, balance_after = credits_balance u'\<rparr>
            in (True, db\<lparr>users := (users db)(user_id \<mapsto> u'),
                         transactions := transactions db @ [t]\<rparr>))"

text \<open>\<open>CreditService.refund_credits\<close>.\<close>

definition refund_credits ::
  "session \<Rightarrow> timestamp \<Rightarrow> uuid \<Rightarrow> string \<Rightarrow> int \<Rightarrow> string \<Rightarrow> bool \<times> session" where
  "refund_credits db now new_id user_id amt reason =
     (case users db user_id of
        None \<Rightarrow> (False, db)
      | Some u \<Rightarrow>
          let before = credits_balance u;
              u' = u\<lparr>credits_balance := credits_balance u + amt,
                     total_credits_used := total_credits_used u - amt,
                     user_updated_at := Some now\<rparr>;
              t = \<lparr>tx_id = new_id, tx_user_id = user_id, amount = amt,
                   transaction_type = ''refund'', description = reason,
                   payment_id = None, payment_method = None, payment_status = None,
                   balance_before = before, balance_after = credits_balance u'\<rparr>
          in (True, db\<lparr>users := (users db)(user_id \<mapsto> u'),
                       transactions := transactions db @ [t]\<rparr>))"

text \<open>
  \<open>CreditService.add_credits\<close>. The description uses \<open>payment_method or 'unknown'\<close>: a
  missing or empty method reads as \<open>unknown\<close>.
\<close>

definition method_or_unknown :: "string option \<Rightarrow> string" where
  "method_or_unknown m = (case m of None \<Rightarrow> ''unknown'' | Some s \<Rightarrow> if s = [] then ''unknown'' else s)"

definition add_credits ::
  "session \<Rightarrow> timestamp \<Rightarrow> uuid \<Rightarrow> string \<Rightarrow> int \<Rightarrow> string option \<Rightarrow> string option
     \<Rightarrow> bool \<times> session" where
  "add_credits db now new_id user_id amt pay_id pay_method =
     (case users db user_id of
        None \<Rightarrow> (False, db)
      | Some u \<Rightarrow>
          let before = credits_balance u;
              u' = u\<lparr>credits_balance := credits_balance u + amt,
                     total_credits_purchased := total_credits_purchased u + amt,
                     user_updated_at := Some now\<rparr>;
              t = \<lparr>tx_id = new_id, tx_user_id = user_id, amount = amt,
                   transaction_type = ''purchase'',
                   description = ''Credits purchased via '' @ method_or_unknown pay_method,
                   payment_id = pay_id, payment_method = pay_method,
                   payment_status = Some ''completed'',
                   balance_before = before, balance_after = credits_balance u'\<rparr>
          in (True, db\<lparr>users := (users db)(user_id \<mapsto> u'),
                       transactions := transactions db @ [t]\<rparr>))"

text \<open>\<open>CreditService.check_user_credits\<close> and \<open>CreditService.get_user_credits\<close>.\<close>

definition check_user_credits :: "session \<Rightarrow> string \<Rightarrow> int \<Rightarrow> bool" where
  "check_user_credits db user_id required_credits =
     (case users db user_id of None \<Rightarrow> False | Some u \<Rightarrow> credits_balance u \<ge> required_credits)"

definition get_user_credits :: "session \<Rightarrow> string \<Rightarrow> int option" where
  "get_user_credits db user_id = map_option credits_balance (users db user_id)"

subsection \<open>Sequences of ledger operations\<close>

text \<open>
  The service has three mutating operations (there is no separate operation that grants
  bonus credits). A history is a list of calls, each with its clock reading and fresh id.
\<close>

datatype ledger_op =
    Reserve timestamp uuid string int
  | Refund timestamp uuid string int string
  | Purchase timestamp uuid string int "string option" "string option"

fun apply_ledger_op :: "session \<Rightarrow> ledger_op \<Rightarrow> session" where
  "apply_ledger_op db (Reserve now i uid a) = snd (check_and_reserve_credits db now i uid a)"
| "apply_ledger_op db (Refund now i uid a r) = snd (refund_credits db now i uid a r)"
| "apply_ledger_op db (Purchase now i uid a p m) = snd (add_credits db now i uid a p m)"

fun run_ledger_ops :: "session \<Rightarrow> ledger_op list \<Rightarrow> session" where
  "run_ledger_ops db [] = db"
| "run_ledger_ops db (x # xs) = run_ledger_ops (apply_ledger_op db x) xs"

text \<open>
  The reconciliation equation as the specification words it: the cached balance against
  the two totals plus the refund and bonus amounts found in the account's entries.
\<close>

definition sum_of_kind :: "session \<Rightarrow> string \<Rightarrow> string \<Rightarrow> int" where
  "sum_of_kind db user_id kind =
     sum_list (map amount
       (filter (\<lambda>t. tx_user_id t = user_id \<and> transaction_type t = kind) (transactions db)))"

definition spec_reconciles :: "session \<Rightarrow> string \<Rightarrow> bool" where
  "spec_reconciles db user_id =
     (case users db user_id of
        None \<Rightarrow> True
      | Some u \<Rightarrow> credits_balance u =
          total_credits_purchased u - total_credits_used u
            + sum_of_kind db user_id ''refund'' + sum_of_kind db user_id ''bonus'')"

text \<open>What the three operations keep: the balance against the two totals alone.\<close>

definition balance_reconciles :: "user \<Rightarrow> bool" where
  "balance_reconciles u \<longleftrightarrow>
     credits_balance u = total_credits_purchased u - total_credits_used u"

text \<open>Sample data: one account, and the history purchase 10, reserve 2, refund 2.\<close>

definition empty_account :: user where
  "empty_account = \<lparr>credits_balance = 0, total_credits_used = 0,
     total_credits_purchased = 0, user_updated_at = None\<rparr>"

definition account_of :: "int \<Rightarrow> int \<Rightarrow> int \<Rightarrow> user" where
  "account_of b used purchased = \<lparr>credits_balance = b, total_credits_used = used,
     total_credits_purchased = purchased, user_updated_at = None\<rparr>"

definition session_of :: "user \<Rightarrow> session" where
  "session_of u = \<lparr>users = [''u1'' \<mapsto> u], transactions = [], jobs = Map.empty\<rparr>"

definition sample_history :: "ledger_op list" where
  "sample_history =
     [Purchase 1 ''t1'' ''u1'' 10 None None,
      Reserve 2 ''t2'' ''u1'' 2,
      Refund 3 ''t3'' ''u1'' 2 ''Job j1 cancelled'']"

text \<open>The same refund, for the same job, issued twice.\<close>

definition refunded_once :: session where
  "refunded_once =
     snd (refund_credits (session_of (account_of 8 2 10)) 1 ''t1'' ''u1'' 2 ''Job j1 cancelled'')"

definition refunded_twice :: session where
  "refunded_twice = snd (refund_credits refunded_once 2 ''t2'' ''u1'' 2 ''Job j1 cancelled'')"

section \<open>Image service\<close>

text \<open>
  \<open>ImageService.update_job_status\<close>. The optional arguments default to \<open>None\<close>; the
  guards \<open>if error_message:\<close>, \<open>if output_images:\<close> and \<open>if processing_time:\<close> test
  Python truthiness, so an empty string, an empty list and a zero time count as absent.
  The function reads the clock up to three times; the model uses one reading for all.
\<close>

definition truthy_str :: "string option \<Rightarrow> bool" where
  "truthy_str s = (case s of None \<Rightarrow> False | Some x \<Rightarrow> x \<noteq> [])"

definition truthy_list :: "'a list option \<Rightarrow> bool" where
  "truthy_list s = (case s of None \<Rightarrow> False | Some x \<Rightarrow> x \<noteq> [])"

definition truthy_num :: "rat option \<Rightarrow> bool" where
  "truthy_num s = (case s of None \<Rightarrow> False | Some x \<Rightarrow> x \<noteq> 0)"

definition update_job ::
  "processing_job \<Rightarrow> timestamp \<Rightarrow> string \<Rightarrow> int option \<Rightarrow> string option
     \<Rightarrow> string list option \<Rightarrow> rat option \<Rightarrow> processing_job" where
  "update_job job now new_status prog err outs ptime =
     (let j1 = job\<lparr>status := new_status, job_updated_at := Some now\<rparr>;
          j2 = (case prog of None \<Rightarrow> j1 | Some p \<Rightarrow> j1\<lparr>progress := p\<rparr>);
          j3 = (if new_status = ''processing'' \<and> started_at j2 = None
                then j2\<lparr>started_at := Some now\<rparr> else j2);
          j4 = (if new_status \<in> set [''completed'', ''failed'']
                then j3\<lparr>completed_at := Some now,
                        progress := (if new_status = ''completed'' then 100 else progress j3)\<rparr>
                else j3);
          j5 = (if truthy_str err then j4\<lparr>error_message := err\<rparr> else j4);
          j6 = (if truthy_list outs then j5\<lparr>output_images := outs\<rparr> else j5);
          j7 = (if truthy_num ptime then j6\<lparr>processing_time_seconds := ptime\<rparr> else j6)
      in j7)"

definition update_job_status ::
  "session \<Rightarrow> timestamp \<Rightarrow> string \<Rightarrow> string \<Rightarrow> int option \<Rightarrow> string option
     \<Rightarrow> string list option \<Rightarrow> rat option \<Rightarrow> session" where
  "update_job_status db now job_id new_status prog err outs ptime =
     (case jobs db job_id of
        None \<Rightarrow> db
      | Some job \<Rightarrow>
          db\<lparr>jobs := (jobs db)(job_id \<mapsto> update_job job now new_status prog err outs ptime)\<rparr>)"

text \<open>
  \<open>ImageService.queue_processing_job\<close>. \<open>process_images_task.delay\<close> hands the task to
  the broker and raises when the broker cannot take it; the argument \<open>delay\<close> gives the
  outcome of that call, \<open>Inl\<close> carrying the text of the exception.
\<close>

record request_data =
  images :: "string list"
  operation :: string
  req_callback_url :: "string option"

definition queue_processing_job ::
  "session \<Rightarrow> timestamp \<Rightarrow> (string \<Rightarrow> request_data \<Rightarrow> string + unit) \<Rightarrow> string
     \<Rightarrow> request_data \<Rightarrow> session" where
  "queue_processing_job db now delay job_id req =
     (case delay job_id req of
        Inr _ \<Rightarrow> db
      | Inl e \<Rightarrow> update_job_status db now job_id ''failed'' None
                 (Some (''Failed to queue job: '' @ e)) None None)"

section \<open>Cancelling a job\<close>

text \<open>
  The endpoint \<open>cancel_job\<close>. The job is looked up by its id and the caller's user id
  together; the two exceptions it raises are the \<open>Inl\<close> results. The source assigns
  \<open>job.status = "cancelled"\<close> first and tests \<open>job.status == "queued"\<close> afterwards, on the
  same object; the model keeps that order.
\<close>

datatype api_error = JobNotFoundError string | ImageProcessingError string

definition cancel_job ::
  "session \<Rightarrow> timestamp \<Rightarrow> uuid \<Rightarrow> string \<Rightarrow> string \<Rightarrow> api_error + session" where
  "cancel_job db now new_id job_id user_id =
     (case jobs db job_id of
        None \<Rightarrow> Inl (JobNotFoundError job_id)
      | Some job \<Rightarrow>
          if job_user_id job \<noteq> user_id then Inl (JobNotFoundError job_id)
          else if status job \<in> set [''completed'', ''failed'', ''cancelled'']
          then Inl (ImageProcessingError (''Cannot cancel job with status: '' @ status job))
          else
            let job' = job\<lparr>status := ''cancelled'', job_updated_at := Some now\<rparr>;
                db' = db\<lparr>jobs := (jobs db)(job_id \<mapsto> job')\<rparr>;
                db'' = (if status job' = ''queued''
                        then snd (refund_credits db' now new_id user_id (credits_used job')
                                    (''Job '' @ job_id @ '' cancelled''))
                        else db')
            in Inr db'')"

section \<open>Floating point\<close>

text \<open>
  Python's \<open>float\<close> is the IEEE 754 double. A finite double is a rational number, and
  every operation the code applies to floats returns the exact result rounded to the
  nearest double, ties going to the even significand. \<open>round_double\<close> is that rounding:
  \<open>floor_log2\<close> finds the binade of a positive number, the significand has 53 bits, the
  least exponent is that of the subnormals, and a result of \<open>2^1024\<close> or more is no
  finite double (\<open>None\<close>). \<open>int(x)\<close> truncates towards zero.
\<close>

function bit_length :: "int \<Rightarrow> int" where
  "bit_length n = (if n \<le> 0 then 0 else 1 + bit_length (n div 2))"
  by pat_completeness auto
termination
  by (relation "measure nat") auto

declare bit_length.simps [simp del]

definition pow2 :: "int \<Rightarrow> rat" where
  "pow2 e = (if 0 \<le> e then 2 ^ nat e else 1 / 2 ^ nat (- e))"

definition floor_log2 :: "rat \<Rightarrow> int" where
  "floor_log2 x = (if 1 \<le> x then bit_length \<lfloor>x\<rfloor> - 1
                   else - bit_length (\<lceil>1 / x\<rceil> - 1))"

definition round_half_even :: "rat \<Rightarrow> int" where
  "round_half_even x =
     (let f = \<lfloor>x\<rfloor>; r = x - of_int f
      in if r < 1 / 2 then f else if 1 / 2 < r then f + 1
         else if even f then f else f + 1)"

definition round_double :: "rat \<Rightarrow> rat option" where
  "round_double x =
     (if x = 0 then Some 0
      else let a = \<bar>x\<bar>;
               e = max (floor_log2 a - 52) (- 1074);
               r = of_int (round_half_even (a / pow2 e)) * pow2 e
           in if 1024 \<le> floor_log2 r then None else Some (sgn x * r))"

definition py_int :: "rat \<Rightarrow> int" where
  "py_int x = (if x \<ge> 0 then \<lfloor>x\<rfloor> else \<lceil>x\<rceil>)"

datatype py_error = TypeError | OverflowError

text \<open>
  \<open>int(b * c)\<close> for an integer \<open>b\<close> and a float \<open>c\<close>: the integer is converted to a
  float (\<open>OverflowError\<close> when it is too large), the product is rounded, and \<open>int\<close> of
  an infinite product raises \<open>OverflowError\<close> as well.
\<close>

definition int_times_float :: "int \<Rightarrow> rat \<Rightarrow> py_error + int" where
  "int_times_float b c =
     (case round_double (of_int b) of
        None \<Rightarrow> Inl OverflowError
      | Some x \<Rightarrow>
          (case round_double (x * c) of
             None \<Rightarrow> Inl OverflowError
           | Some y \<Rightarrow> Inr (py_int y)))"

text \<open>The literal \<open>1.2\<close> is the double nearest to \<open>6/5\<close>; \<open>1.5\<close> is \<open>3/2\<close> itself.\<close>

definition float_1_2 :: rat where
  "float_1_2 = 5404319552844595 / 4503599627370496"

text \<open>
  \<open>int((i + 1) / total_images * 90)\<close>, the progress after the image of index \<open>i\<close>: a
  correctly rounded quotient of two integers, a rounded product, a truncation. The
  \<open>Inl\<close> results are the texts of the exceptions Python raises instead.
\<close>

definition progress_after :: "nat \<Rightarrow> nat \<Rightarrow> string + int" where
  "progress_after i total_images =
     (if total_images = 0 then Inl ''division by zero''
      else case round_double (of_nat (i + 1) / of_nat total_images) of
             None \<Rightarrow> Inl ''integer division result too large for a float''
           | Some q \<Rightarrow>
               (case round_double (q * 90) of
                  None \<Rightarrow> Inl ''cannot convert float infinity to integer''
                | Some y \<Rightarrow> Inr (py_int y)))"

section \<open>The worker task\<close>

text \<open>
  \<open>process_images_task\<close>. What the model loader, the image processor and the output
  store do in one run of the task is given by a \<open>worker_env\<close>: each may raise, with the
  text of its exception. The request's processing parameters go to the image processor
  only, so they are part of what the \<open>worker_env\<close> stands for. Webhook and cleanup
  tasks handed to the broker are collected as events; the hand-over itself is taken to
  succeed. Computing the progress is inside the loop's \<open>try\<close>, so
  an exception from it ends the run like one from the image processor.
\<close>

record worker_env =
  load_models_raises :: "string option"
  process_image_raises :: "nat \<Rightarrow> string option"
  save_output_images_result :: "string + string list"
  elapsed_seconds :: rat

datatype event = Webhook string string string | Cleanup string nat

datatype task_result = Done | RetryScheduled | Raised string

fun process_each ::
  "session \<Rightarrow> timestamp \<Rightarrow> string \<Rightarrow> (nat \<Rightarrow> string option) \<Rightarrow> nat \<Rightarrow> nat list
     \<Rightarrow> session \<times> string option" where
  "process_each db now job_id raises total_images [] = (db, None)"
| "process_each db now job_id raises total_images (i # rest) =
     (case raises i of
        Some e \<Rightarrow> (db, Some e)
      | None \<Rightarrow>
          (case progress_after i total_images of
             Inl e \<Rightarrow> (db, Some e)
           | Inr p \<Rightarrow>
               process_each
                 (update_job_status db now job_id ''processing'' (Some p) None None None)
                 now job_id raises total_images rest))"

definition truthy_url :: "string option \<Rightarrow> string option" where
  "truthy_url u = (case u of None \<Rightarrow> None | Some s \<Rightarrow> if s = [] then None else Some s)"

definition notify :: "string \<Rightarrow> request_data \<Rightarrow> string \<Rightarrow> event list" where
  "notify job_id req st =
     (case truthy_url (req_callback_url req) of
        None \<Rightarrow> []
      | Some url \<Rightarrow> [Webhook job_id url st])"

text \<open>The body of the \<open>try\<close> block: the session it leaves, and the exception if one was raised.\<close>

definition task_body ::
  "session \<Rightarrow> timestamp \<Rightarrow> worker_env \<Rightarrow> string \<Rightarrow> request_data
     \<Rightarrow> session \<times> (string + event list)" where
  "task_body db now env job_id req =
     (case load_models_raises env of
        Some e \<Rightarrow> (db, Inl e)
      | None \<Rightarrow>
          let db1 = update_job_status db now job_id ''processing'' (Some 0) None None None;
              total_images = length (images req)
          in case process_each db1 now job_id (process_image_raises env) total_images
                    [0..<total_images] of
               (db2, Some e) \<Rightarrow> (db2, Inl e)
             | (db2, None) \<Rightarrow>
                 (case save_output_images_result env of
                    Inl e \<Rightarrow> (db2, Inl e)
                  | Inr urls \<Rightarrow>
                      (update_job_status db2 now job_id ''completed'' (Some 100) None
                         (Some urls) (Some (elapsed_seconds env)),
                       Inr (notify job_id req ''completed'' @ [Cleanup job_id 3600]))))"

text \<open>
  \<open>self.retry(exc=e, countdown=60, max_retries=3)\<close> is Celery's: it reschedules the task
  and raises \<open>Retry\<close> while the delivery's retry count is below \<open>max_retries\<close>, and raises
  the original exception once the count has reached it.
\<close>

definition celery_retry :: "nat \<Rightarrow> nat \<Rightarrow> string \<Rightarrow> task_result" where
  "celery_retry retries max_retries e =
     (if retries + 1 > max_retries then Raised e else RetryScheduled)"

definition process_images_task ::
  "session \<Rightarrow> timestamp \<Rightarrow> worker_env \<Rightarrow> nat \<Rightarrow> string \<Rightarrow> request_data
     \<Rightarrow> session \<times> event list \<times> task_result" where
  "process_images_task db now env retries job_id req =
     (case task_body db now env job_id req of
        (db', Inr evs) \<Rightarrow> (db', evs, Done)
      | (db', Inl e) \<Rightarrow>
          (update_job_status db' now job_id ''failed'' None
             (Some (''Processing failed: '' @ e)) None None,
           notify job_id req ''failed'',
           celery_retry retries 3 e))"

section \<open>Cost calculation\<close>

text \<open>
  \<open>CreditService.calculate_cost\<close>. The parameters are a dictionary of untyped values; the
  values that reach it are \<open>None\<close>, integers, floats and strings. The f-string keys
  print a value with \<open>str\<close>; the printing of floats is the argument \<open>float_str\<close>.
  Comparing \<open>None\<close> or a string with a number raises \<open>TypeError\<close>; the comparison of
  a number with an integer is exact. \<open>int(base_cost * 1.5)\<close> and
  \<open>int(base_cost * 1.2)\<close> are floating-point products, truncated. Whatever is raised
  inside the \<open>try\<close> is caught, and the result is then 2 per image.
\<close>

datatype pyval = PNone | PInt int | PFloat rat | PStr string

fun py_gt :: "pyval \<Rightarrow> int \<Rightarrow> py_error + bool" where
  "py_gt (PInt n) k = Inr (n > k)"
| "py_gt (PFloat x) k = Inr (x > of_int k)"
| "py_gt PNone k = Inl TypeError"
| "py_gt (PStr s) k = Inl TypeError"

fun digits :: "nat \<Rightarrow> string" where
  "digits n = (if n < 10 then [''0123456789'' ! n]
               else digits (n div 10) @ [''0123456789'' ! (n mod 10)])"

declare digits.simps [simp del]

definition str_int :: "int \<Rightarrow> string" where
  "str_int n = (if n < 0 then CHR ''-'' # digits (nat (- n)) else digits (nat n))"

fun py_str :: "(rat \<Rightarrow> string) \<Rightarrow> pyval \<Rightarrow> string" where
  "py_str float_str PNone = ''None''"
| "py_str float_str (PInt n) = str_int n"
| "py_str float_str (PFloat x) = float_str x"
| "py_str float_str (PStr s) = s"

definition dict_get :: "('k \<rightharpoonup> 'v) \<Rightarrow> 'k \<Rightarrow> 'v \<Rightarrow> 'v" where
  "dict_get d k dflt = (case d k of None \<Rightarrow> dflt | Some v \<Rightarrow> v)"

definition base_cost_of ::
  "(rat \<Rightarrow> string) \<Rightarrow> (string \<rightharpoonup> int) \<Rightarrow> string \<Rightarrow> (string \<rightharpoonup> pyval) \<Rightarrow> int" where
  "base_cost_of float_str credit_costs op parameters =
     (if op = ''enhance''
      then dict_get credit_costs
             (''enhance_'' @ py_str float_str (dict_get parameters ''quality'' (PStr ''medium''))) 2
      else if op = ''upscale''
      then dict_get credit_costs
             (''upscale_'' @ py_str float_str (dict_get parameters ''upscale_factor'' (PInt 2))
                @ ''x'') 2
      else 1)"

definition calculate_cost_try ::
  "(rat \<Rightarrow> string) \<Rightarrow> (string \<rightharpoonup> int) \<Rightarrow> string \<Rightarrow> (string \<rightharpoonup> pyval) \<Rightarrow> int
     \<Rightarrow> py_error + int" where
  "calculate_cost_try float_str credit_costs op parameters image_count =
     (let base_cost = base_cost_of float_str credit_costs op parameters
      in (case py_gt (dict_get parameters ''steps'' (PInt 20)) 50 of
            Inl e \<Rightarrow> Inl e
          | Inr high_steps \<Rightarrow>
              (case (if high_steps then int_times_float base_cost (3 / 2)
                     else Inr base_cost) of
                 Inl e \<Rightarrow> Inl e
               | Inr base_cost \<Rightarrow>
                   (case py_gt (dict_get parameters ''guidance_scale'' (PFloat (15 / 2))) 15 of
                      Inl e \<Rightarrow> Inl e
                    | Inr high_guidance \<Rightarrow>
                        (case (if high_guidance then int_times_float base_cost float_1_2
                               else Inr base_cost) of
                           Inl e \<Rightarrow> Inl e
                         | Inr base_cost \<Rightarrow> Inr (base_cost * image_count))))))"

definition calculate_cost ::
  "(rat \<Rightarrow> string) \<Rightarrow> (string \<rightharpoonup> int) \<Rightarrow> string \<Rightarrow> (string \<rightharpoonup> pyval) \<Rightarrow> int \<Rightarrow> int" where
  "calculate_cost float_str credit_costs op parameters image_count =
     (case calculate_cost_try float_str credit_costs op parameters image_count of
        Inl e \<Rightarrow> 2 * image_count
      | Inr total_cost \<Rightarrow> total_cost)"


text \<open>Sample data: one job of the account \<open>u1\<close>, in a given status and progress.\<close>

definition job_of :: "string \<Rightarrow> int \<Rightarrow> processing_job" where
  "job_of st p = \<lparr>job_user_id = ''u1'', status = st, progress = p, credits_used = 2,
     estimated_cost = 2, callback_url = Some ''http://cb'', error_message = None,
     output_images = None, processing_time_seconds = None, started_at = None,
     completed_at = None, job_updated_at = None\<rparr>"

definition session_with_job :: "user \<Rightarrow> processing_job \<Rightarrow> session" where
  "session_with_job u j = \<lparr>users = [''u1'' \<mapsto> u], transactions = [], jobs = [''j1'' \<mapsto> j]\<rparr>"


definition sample_float_str :: "rat \<Rightarrow> string" where
  "sample_float_str x = ''0.0''"

definition sample_request :: request_data where
  "sample_request = \<lparr>images = [''img0''], operation = ''enhance'',
     req_callback_url = Some ''http://cb''\<rparr>"

definition failing_env :: worker_env where
  "failing_env = \<lparr>load_models_raises = None,
     process_image_raises = (\<lambda>i. Some ''CUDA out of memory''),
     save_output_images_result = Inr [], elapsed_seconds = 1\<rparr>"

section \<open>Ledger properties\<close>

lemma refund_credits_found:
  "users db uid = Some u \<Longrightarrow>
     refund_credits db now i uid a r =
       (True, db\<lparr>users := (users db)(uid \<mapsto>
                    u\<lparr>credits_balance := credits_balance u + a,
                      total_credits_used := total_credits_used u - a,
                      user_updated_at := Some now\<rparr>),
                transactions := transactions db @
                  [\<lparr>tx_id = i, tx_user_id = uid, amount = a,
                    transaction_type = ''refund'', description = r,
                    payment_id = None, payment_method = None, payment_status = None,
                    balance_before = credits_balance u,
                    balance_after = credits_balance u + a\<rparr>]\<rparr>)"
  by (simp add: refund_credits_def Let_def)

lemma check_and_reserve_credits_found:
  "users db uid = Some u \<Longrightarrow>
     check_and_reserve_credits db now i uid a =
       (if credits_balance u < a then (False, db)
        else (True, db\<lparr>users := (users db)(uid \<mapsto>
                    u\<lparr>credits_balance := credits_balance u - a,
                      total_credits_used := total_credits_used u + a,
                      user_updated_at := Some now\<rparr>),
                transactions := transactions db @
                  [\<lparr>tx_id = i, tx_user_id = uid, amount = - a,
                    transaction_type = ''usage'',
                    description = ''Credits reserved for image processing'',
                    payment_id = None, payment_method = None, payment_status = None,
                    balance_before = credits_balance u,
                    balance_after = credits_balance u - a\<rparr>]\<rparr>))"
  by (simp add: check_and_reserve_credits_def Let_def)

lemma add_credits_found:
  "users db uid = Some u \<Longrightarrow>
     add_credits db now i uid a p m =
       (True, db\<lparr>users := (users db)(uid \<mapsto>
                    u\<lparr>credits_balance := credits_balance u + a,
                      total_credits_purchased := total_credits_purchased u + a,
                      user_updated_at := Some now\<rparr>),
                transactions := transactions db @
                  [\<lparr>tx_id = i, tx_user_id = uid, amount = a,
                    transaction_type = ''purchase'',
                    description = ''Credits purchased via '' @ method_or_unknown m,
                    payment_id = p, payment_method = m, payment_status = Some ''completed'',
                    balance_before = credits_balance u,
                    balance_after = credits_balance u + a\<rparr>]\<rparr>)"
  by (simp add: add_credits_def Let_def)





text \<open>
  C1, as stated, fails: \<open>refund_credits\<close> takes no idempotency key and looks at no
  earlier entry. Two refunds of 2 for the same job on a balance of 8 give 12, with two
  refund entries, and the second call changes the session.
\<close>

theorem refund_twice_counterexample:
  "get_user_credits (session_of (account_of 8 2 10)) ''u1'' = Some 8
   \<and> get_user_credits refunded_once ''u1'' = Some 10
   \<and> get_user_credits refunded_twice ''u1'' = Some 12
   \<and> map description (transactions refunded_twice) = [''Job j1 cancelled'', ''Job j1 cancelled'']
   \<and> map transaction_type (transactions refunded_twice) = [''refund'', ''refund'']
   \<and> refunded_twice \<noteq> refunded_once"
  by (simp add: refunded_twice_def refunded_once_def refund_credits_def session_of_def account_of_def get_user_credits_def Let_def)

text \<open>
  C1, amended. Every call of \<open>refund_credits\<close> on an existing user credits the amount
  and appends a refund entry: two calls with the same amount and reason credit the
  balance twice, take the amount off \<open>total_credits_used\<close> twice and append two
  entries carrying that reason.
\<close>

theorem refund_credits_every_call_credits:
  assumes "users db uid = Some u"
  shows "\<exists>u' t1 t2.
           users (snd (refund_credits (snd (refund_credits db n1 i1 uid a r)) n2 i2 uid a r)) uid = Some u'
         \<and> credits_balance u' = credits_balance u + 2 * a
         \<and> total_credits_used u' = total_credits_used u - 2 * a
         \<and> transactions (snd (refund_credits (snd (refund_credits db n1 i1 uid a r)) n2 i2 uid a r))
             = transactions db @ [t1, t2]
         \<and> transaction_type t1 = ''refund'' \<and> transaction_type t2 = ''refund''
         \<and> description t1 = r \<and> description t2 = r
         \<and> amount t1 = a \<and> amount t2 = a"
  using assms by (simp add: refund_credits_found)

theorem refund_credits_every_call_credits_witness:
  "users (session_of (account_of 8 2 10)) ''u1'' = Some (account_of 8 2 10)
   \<and> (\<exists>u'. users refunded_twice ''u1'' = Some u' \<and> credits_balance u' = 8 + 2 * 2)
   \<and> length (transactions refunded_twice) = 2"
  using refund_credits_every_call_credits [of "session_of (account_of 8 2 10)" "''u1''"
      "account_of 8 2 10" 1 "''t1''" 2 "''Job j1 cancelled''" 2 "''t2''"]
  by (auto simp add: session_of_def account_of_def refunded_twice_def refunded_once_def)


text \<open>
  C4, as stated, fails: a refund already lowers \<open>total_credits_used\<close>, so adding the
  refund amounts again counts them twice. After purchase 10, reserve 2, refund 2 the
  balance is 10, while purchased less used plus refunds is 12.
\<close>

theorem spec_reconciles_counterexample:
  "spec_reconciles (session_of empty_account) ''u1''
   \<and> \<not> spec_reconciles (run_ledger_ops (session_of empty_account) sample_history) ''u1''"
  by (simp add: spec_reconciles_def sum_of_kind_def session_of_def empty_account_def sample_history_def
      refund_credits_def add_credits_def check_and_reserve_credits_def Let_def)

lemma apply_ledger_op_reconciles:
  assumes "users db uid = Some u" "balance_reconciles u"
  shows "\<exists>u'. users (apply_ledger_op db x) uid = Some u' \<and> balance_reconciles u'"
proof (cases x)
  case (Reserve now i v a)
  show ?thesis
  proof (cases "users db v")
    case None
    then show ?thesis using assms Reserve by (simp add: check_and_reserve_credits_def)
  next
    case (Some w)
    then show ?thesis using assms Reserve
      by (auto simp add: check_and_reserve_credits_found balance_reconciles_def)
  qed
next
  case (Refund now i v a r)
  show ?thesis
  proof (cases "users db v")
    case None
    then show ?thesis using assms Refund by (simp add: refund_credits_def)
  next
    case (Some w)
    then show ?thesis using assms Refund
      by (auto simp add: refund_credits_found balance_reconciles_def)
  qed
next
  case (Purchase now i v a p m)
  show ?thesis
  proof (cases "users db v")
    case None
    then show ?thesis using assms Purchase by (simp add: add_credits_def)
  next
    case (Some w)
    then show ?thesis using assms Purchase
      by (auto simp add: add_credits_found balance_reconciles_def)
  qed
qed

text \<open>
  C4, amended. After any sequence of reservations, refunds and purchases the account is
  still there, and its balance equals \<open>total_credits_purchased\<close> less
  \<open>total_credits_used\<close> whenever it did before the sequence.
\<close>

theorem ledger_ops_keep_balance:
  assumes "users db uid = Some u" "balance_reconciles u"
  shows "\<exists>u'. users (run_ledger_ops db ops) uid = Some u' \<and> balance_reconciles u'"
  using assms
proof (induction ops arbitrary: db u)
  case Nil
  then show ?case by simp
next
  case (Cons x xs)
  from apply_ledger_op_reconciles [OF Cons.prems]
  obtain v where "users (apply_ledger_op db x) uid = Some v" "balance_reconciles v" by blast
  from Cons.IH [OF this] show ?case by simp
qed

theorem ledger_ops_keep_balance_witness:
  "users (session_of empty_account) ''u1'' = Some empty_account
   \<and> balance_reconciles empty_account
   \<and> (\<exists>u'. users (run_ledger_ops (session_of empty_account) sample_history) ''u1'' = Some u'
         \<and> balance_reconciles u')"
  using ledger_ops_keep_balance [of "session_of empty_account" "''u1''" empty_account sample_history]
  by (simp add: session_of_def empty_account_def balance_reconciles_def)

section \<open>Job properties\<close>

lemma update_job_status_found:
  "jobs db jid = Some j \<Longrightarrow>
     update_job_status db now jid st p e outs t =
       db\<lparr>jobs := (jobs db)(jid \<mapsto> update_job j now st p e outs t)\<rparr>"
  by (simp add: update_job_status_def)

lemma update_job_status_field:
  "status (update_job j now st p e outs t) = st"
  by (simp add: update_job_def Let_def split: option.splits)

lemma update_job_progress:
  "progress (update_job j now st p e outs t) =
     (if st = ''completed'' then 100 else case p of None \<Rightarrow> progress j | Some q \<Rightarrow> q)"
  by (simp add: update_job_def Let_def split: option.splits)

lemma update_job_error:
  "truthy_str e \<Longrightarrow> error_message (update_job j now st p e outs t) = e"
  by (simp add: update_job_def Let_def split: option.splits)

text \<open>
  C5, as stated, fails: \<open>update_job_status\<close> looks at no current status. A completed
  job at progress 100 that is sent \<open>processing\<close> with progress 50 ends up processing
  at 50.
\<close>

theorem terminal_update_counterexample:
  "map_option status (jobs (update_job_status (session_with_job (account_of 8 2 10) (job_of ''completed'' 100))
       7 ''j1'' ''processing'' (Some 50) None None None) ''j1'') = Some ''processing''
   \<and> map_option progress (jobs (update_job_status (session_with_job (account_of 8 2 10) (job_of ''completed'' 100))
       7 ''j1'' ''processing'' (Some 50) None None None) ''j1'') = Some 50"
  by (simp add: update_job_status_def update_job_def session_with_job_def job_of_def Let_def
        truthy_str_def truthy_list_def truthy_num_def)

text \<open>
  C5, amended. For every existing job, terminal or not, \<open>update_job_status\<close> raises
  nothing and overwrites: the status becomes the delivered one, and the progress becomes
  100 for \<open>completed\<close>, otherwise the delivered progress when one is given and the old
  progress when none is.
\<close>

theorem update_job_status_overwrites:
  assumes "jobs db jid = Some j"
  shows "\<exists>j'. jobs (update_job_status db now jid st p e outs t) jid = Some j'
           \<and> status j' = st
           \<and> progress j' = (if st = ''completed'' then 100
                             else case p of None \<Rightarrow> progress j | Some q \<Rightarrow> q)"
  using assms by (simp add: update_job_status_found update_job_status_field update_job_progress)

theorem update_job_status_overwrites_witness:
  "jobs (session_with_job (account_of 8 2 10) (job_of ''failed'' 40)) ''j1'' = Some (job_of ''failed'' 40)
   \<and> (\<exists>j'. jobs (update_job_status (session_with_job (account_of 8 2 10) (job_of ''failed'' 40))
              7 ''j1'' ''processing'' (Some 90) None None None) ''j1'' = Some j'
          \<and> status j' = ''processing'' \<and> progress j' = 90)"
  using update_job_status_overwrites [of "session_with_job (account_of 8 2 10) (job_of ''failed'' 40)"
      "''j1''" "job_of ''failed'' 40" 7 "''processing''" "Some 90" None None None]
  by (simp add: session_with_job_def)

text \<open>
  C9. When handing the task to the broker raises, \<open>queue_processing_job\<close> sets the
  job to \<open>failed\<close>, so it does not stay \<open>queued\<close>, and records the message
  \<open>Failed to queue job:\<close> followed by the text of the exception.
\<close>

theorem queue_failure_marks_failed:
  assumes "jobs db jid = Some j" "delay jid req = Inl e"
  shows "\<exists>j'. jobs (queue_processing_job db now delay jid req) jid = Some j'
           \<and> status j' = ''failed''
           \<and> status j' \<noteq> ''queued''
           \<and> error_message j' = Some (''Failed to queue job: '' @ e)"
  using assms
  by (simp add: queue_processing_job_def update_job_status_found update_job_status_field
        update_job_error truthy_str_def)

theorem queue_failure_marks_failed_witness:
  "jobs (session_with_job (account_of 8 2 10) (job_of ''queued'' 0)) ''j1'' = Some (job_of ''queued'' 0)
   \<and> (\<exists>j'. jobs (queue_processing_job (session_with_job (account_of 8 2 10) (job_of ''queued'' 0)) 7
               (\<lambda>_ _. Inl ''broker down'') ''j1'' \<lparr>images = [''a''], operation = ''enhance'', req_callback_url = None\<rparr>) ''j1'' = Some j'
       \<and> status j' = ''failed''
       \<and> error_message j' = Some ''Failed to queue job: broker down'')"
  using queue_failure_marks_failed [of "session_with_job (account_of 8 2 10) (job_of ''queued'' 0)"
     "''j1''" "job_of ''queued'' 0" "\<lambda>_ _. Inl ''broker down''"
     "\<lparr>images = [''a''], operation = ''enhance'', req_callback_url = None\<rparr>" "''broker down''" 7]
  by (auto simp add: session_with_job_def)

text \<open>
  C6, as stated, fails: \<open>cancel_job\<close> refuses only the statuses completed, failed
  and cancelled. Cancelling a processing job returns normally and leaves the job
  cancelled.
\<close>

theorem cancel_processing_counterexample:
  "cancel_job (session_with_job (account_of 8 2 10) (job_of ''processing'' 30)) 7 ''t1'' ''j1'' ''u1''
     = Inr (session_with_job (account_of 8 2 10)
              ((job_of ''processing'' 30)\<lparr>status := ''cancelled'', job_updated_at := Some 7\<rparr>))
   \<and> map_option status
        (jobs (projr (cancel_job (session_with_job (account_of 8 2 10) (job_of ''processing'' 30))
                        7 ''t1'' ''j1'' ''u1'')) ''j1'') = Some ''cancelled''"
  by (simp add: cancel_job_def session_with_job_def job_of_def Let_def)

text \<open>
  C6, amended. For a processing job of the caller, \<open>cancel_job\<close> succeeds: the job's
  status becomes \<open>cancelled\<close> and its update time is set, nothing else in the job
  changes, and the users and the credit transactions are left as they were (no refund).
\<close>

theorem cancel_processing_succeeds:
  assumes "jobs db jid = Some j" "job_user_id j = uid" "status j = ''processing''"
  shows "cancel_job db now i jid uid =
           Inr (db\<lparr>jobs := (jobs db)(jid \<mapsto> j\<lparr>status := ''cancelled'', job_updated_at := Some now\<rparr>)\<rparr>)
       \<and> users (projr (cancel_job db now i jid uid)) = users db
       \<and> transactions (projr (cancel_job db now i jid uid)) = transactions db"
  using assms by (simp add: cancel_job_def Let_def)

theorem cancel_processing_succeeds_witness:
  "jobs (session_with_job (account_of 8 2 10) (job_of ''processing'' 30)) ''j1'' = Some (job_of ''processing'' 30)
   \<and> job_user_id (job_of ''processing'' 30) = ''u1''
   \<and> status (job_of ''processing'' 30) = ''processing''
   \<and> map_option status (jobs (projr (cancel_job (session_with_job (account_of 8 2 10) (job_of ''processing'' 30)) 7 ''t1'' ''j1'' ''u1'')) ''j1'') = Some ''cancelled''
   \<and> transactions (projr (cancel_job (session_with_job (account_of 8 2 10) (job_of ''processing'' 30)) 7 ''t1'' ''j1'' ''u1'')) = []"
  using cancel_processing_succeeds [of "session_with_job (account_of 8 2 10) (job_of ''processing'' 30)"
     "''j1''" "job_of ''processing'' 30" "''u1''" 7 "''t1''"]
  by (simp add: session_with_job_def job_of_def)

text \<open>
  C2. The code at a queued job that reserved 2 credits on an account now at 8:
  \<open>cancel_job\<close> sets the status to cancelled, and since it tests for \<open>queued\<close> after
  that assignment, it issues no refund; the balance stays 8 and no entry is appended.
\<close>

theorem cancel_queued_no_refund:
  "cancel_job (session_with_job (account_of 8 2 10) (job_of ''queued'' 0)) 7 ''t1'' ''j1'' ''u1''
     = Inr (session_with_job (account_of 8 2 10)
              ((job_of ''queued'' 0)\<lparr>status := ''cancelled'', job_updated_at := Some 7\<rparr>))
   \<and> get_user_credits (projr (cancel_job (session_with_job (account_of 8 2 10) (job_of ''queued'' 0)) 7 ''t1'' ''j1'' ''u1'')) ''u1'' = Some 8
   \<and> transactions (projr (cancel_job (session_with_job (account_of 8 2 10) (job_of ''queued'' 0)) 7 ''t1'' ''j1'' ''u1'')) = []"
  by (simp add: cancel_job_def session_with_job_def job_of_def Let_def get_user_credits_def account_of_def)

section \<open>Worker properties\<close>

lemma update_job_status_keeps:
  "jobs db jid \<noteq> None \<Longrightarrow> jobs (update_job_status db now k st p e outs t) jid \<noteq> None"
  by (simp add: update_job_status_def split: option.splits)

lemma process_each_keeps:
  "jobs db jid \<noteq> None \<Longrightarrow>
     jobs (fst (process_each db now k raises total_images idxs)) jid \<noteq> None"
proof (induction idxs arbitrary: db)
  case Nil
  then show ?case by simp
next
  case (Cons i rest)
  show ?case
  proof (cases "raises i")
    case None
    show ?thesis
    proof (cases "progress_after i total_images")
      case (Inl e)
      then show ?thesis using None Cons.prems by simp
    next
      case (Inr p)
      have "jobs (update_job_status db now k ''processing'' (Some p) None None None) jid
              \<noteq> None"
        by (rule update_job_status_keeps [OF Cons.prems])
      from Cons.IH [OF this] show ?thesis using None Inr by simp
    qed
  next
    case (Some e)
    then show ?thesis using Cons.prems by simp
  qed
qed

lemma task_body_keeps:
  assumes "jobs db jid \<noteq> None"
  shows "jobs (fst (task_body db now env k req)) jid \<noteq> None"
proof (cases "load_models_raises env")
  case (Some e)
  then show ?thesis using assms by (simp add: task_body_def)
next
  case None
  let ?db1 = "update_job_status db now k ''processing'' (Some 0) None None None"
  let ?r = "process_each ?db1 now k (process_image_raises env) (length (images req))
              [0..<length (images req)]"
  obtain db2 r where pe: "?r = (db2, r)" by (cases ?r)
  have k1: "jobs ?db1 jid \<noteq> None" by (rule update_job_status_keeps [OF assms])
  have "jobs (fst ?r) jid \<noteq> None" by (rule process_each_keeps [OF k1])
  then have k2: "jobs db2 jid \<noteq> None" by (simp add: pe)
  have k3: "jobs (update_job_status db2 now k st p e outs t) jid \<noteq> None" for st p e outs t
    by (rule update_job_status_keeps [OF k2])
  have "fst (task_body db now env k req) = db2
      \<or> (\<exists>urls. fst (task_body db now env k req) =
            update_job_status db2 now k ''completed'' (Some 100) None (Some urls)
              (Some (elapsed_seconds env)))"
    using None pe by (auto simp add: task_body_def Let_def split: option.splits sum.splits)
  then show ?thesis using k2 k3 by auto
qed

text \<open>
  C7, as stated, fails: the \<open>except\<close> block of \<open>process_images_task\<close> does not look
  at the retry count before it writes. On the first delivery (no retry made yet) a
  failing run leaves the job \<open>failed\<close> with the error recorded, hands the broker a
  \<open>failed\<close> webhook, and only then has the task rescheduled.
\<close>

theorem failed_attempt_counterexample:
  "process_images_task (session_with_job (account_of 6 4 10) (job_of ''processing'' 0)) 9
       failing_env 0 ''j1'' sample_request
     = (session_with_job (account_of 6 4 10)
          ((job_of ''processing'' 0)\<lparr>status := ''failed'',
             error_message := Some ''Processing failed: CUDA out of memory'',
             started_at := Some 9, completed_at := Some 9, job_updated_at := Some 9\<rparr>),
        [Webhook ''j1'' ''http://cb'' ''failed''],
        RetryScheduled)"
  by (simp add: process_images_task_def task_body_def failing_env_def sample_request_def
        session_with_job_def job_of_def update_job_status_def update_job_def Let_def
        truthy_str_def truthy_list_def truthy_num_def notify_def truthy_url_def celery_retry_def)

text \<open>
  C7, amended. Whenever a run of the task fails, with retries remaining or not, the job
  is set to \<open>failed\<close> with the message \<open>Processing failed:\<close> and the text of the
  exception, and one \<open>failed\<close> webhook is handed over when the request has a non-empty
  callback URL (none otherwise). The task is then rescheduled while fewer than 3 retries
  have been made, and the exception is raised once 3 have.
\<close>

theorem failed_attempt_marks_failed:
  assumes "jobs db jid = Some j" "snd (task_body db now env jid req) = Inl e"
  shows "\<exists>j'. jobs (fst (process_images_task db now env retries jid req)) jid = Some j'
           \<and> status j' = ''failed''
           \<and> error_message j' = Some (''Processing failed: '' @ e)
           \<and> fst (snd (process_images_task db now env retries jid req))
               = (case req_callback_url req of
                    None \<Rightarrow> []
                  | Some url \<Rightarrow> if url = [] then [] else [Webhook jid url ''failed''])
           \<and> snd (snd (process_images_task db now env retries jid req))
               = (if retries < 3 then RetryScheduled else Raised e)"
proof -
  obtain db' where tb: "task_body db now env jid req = (db', Inl e)"
    using assms(2) by (cases "task_body db now env jid req") auto
  have "jobs (fst (task_body db now env jid req)) jid \<noteq> None"
    by (rule task_body_keeps) (simp add: assms(1))
  then obtain k where k: "jobs db' jid = Some k" using tb by auto
  show ?thesis
    using tb k
    by (auto simp add: process_images_task_def update_job_status_found update_job_status_field
          update_job_error truthy_str_def notify_def truthy_url_def celery_retry_def
          split: option.splits)
qed

theorem failed_attempt_marks_failed_witness:
  "jobs (session_with_job (account_of 6 4 10) (job_of ''processing'' 0)) ''j1''
     = Some (job_of ''processing'' 0)
   \<and> snd (task_body (session_with_job (account_of 6 4 10) (job_of ''processing'' 0)) 9
            failing_env ''j1'' sample_request) = Inl ''CUDA out of memory''
   \<and> (\<exists>j'. jobs (fst (process_images_task (session_with_job (account_of 6 4 10)
                 (job_of ''processing'' 0)) 9 failing_env 3 ''j1'' sample_request)) ''j1'' = Some j'
          \<and> status j' = ''failed'')
   \<and> snd (snd (process_images_task (session_with_job (account_of 6 4 10)
                 (job_of ''processing'' 0)) 9 failing_env 3 ''j1'' sample_request))
        = Raised ''CUDA out of memory''"
proof -
  have h1: "jobs (session_with_job (account_of 6 4 10) (job_of ''processing'' 0)) ''j1''
     = Some (job_of ''processing'' 0)"
    by (simp add: session_with_job_def)
  have h2: "snd (task_body (session_with_job (account_of 6 4 10) (job_of ''processing'' 0)) 9
            failing_env ''j1'' sample_request) = Inl ''CUDA out of memory''"
    by (simp add: task_body_def failing_env_def sample_request_def Let_def)
  show ?thesis
    using h1 h2 failed_attempt_marks_failed [OF h1 h2, of 3] by auto
qed

section \<open>Cost properties\<close>



















text \<open>
  Two checks of the float model against Python: the literal \<open>1.2\<close>, and the progress
  after the seventh of ten images, which is 62 where the exact quotient would give 63.
\<close>

lemma float_1_2_nearest: "round_double (6 / 5) = Some float_1_2"
  by code_simp

lemma progress_seven_of_ten: "progress_after 6 10 = Inr 62"
  by code_simp




text \<open>
  The code has no floor of its own: with a table that prices \<open>enhance_low\<close> at 0, one
  image costs 0.
\<close>

lemma calculate_cost_no_floor:
  "calculate_cost sample_float_str [''enhance_low'' \<mapsto> 0] ''enhance''
     [''quality'' \<mapsto> PStr ''low''] 1 = 0"
  by code_simp



end
